theory Spec2Isabelle
  imports Main
begin

section \<open>The request context factory of atom/browser/net\<close>

text \<open>
  A shallow embedding of \<^verbatim>\<open>atom/browser/net/request_context_factory.cc\<close>: the
  helpers of its anonymous namespace (\<^verbatim>\<open>NoCacheBackend\<close>,
  \<^verbatim>\<open>CreateHttpCacheBackendFactory\<close>, \<^verbatim>\<open>CreateURLRequestJobFactory\<close>) and the
  members of \<^verbatim>\<open>AtomMainRequestContextFactory\<close> (constructor, destructor,
  \<^verbatim>\<open>OnCookieChanged\<close>, \<^verbatim>\<open>NotifyCookieChange\<close>, \<^verbatim>\<open>Create\<close>).

  Member names lose the trailing underscore of the C++ (\<^verbatim>\<open>in_memory_\<close> is the field
  \<open>in_memory\<close>), which the logic does not admit in a name. Objects of the network
  library that the file only constructs and hands on are values of datatypes whose
  constructors carry the arguments of the C++ constructor call.
\<close>

subsection \<open>Process-wide command line\<close>

text \<open>
  The switches the file consults. Their spellings live in
  \<^verbatim>\<open>atom/common/options_switches.cc\<close> and in the network service; only their
  identity matters here, so they are the constructors of an enumeration, and the
  command line is a finite map from switch to value.
\<close>

datatype switch =
    kDisableHttpCache
  | kDiskCacheSize
  | kHostResolverRules
  | kNoProxyServer
  | kProxyServer
  | kProxyBypassList
  | kProxyPacUrl
  | kAuthServerWhitelist
  | kAuthNegotiateDelegateWhitelist
  | kDisableHttp2
  | kIgnoreCertificateErrors
  | kHostRules

type_synonym command_line = "switch \<Rightarrow> string option"

definition HasSwitch :: "command_line \<Rightarrow> switch \<Rightarrow> bool" where
  "HasSwitch cl s = (case cl s of None \<Rightarrow> False | Some v \<Rightarrow> True)"

definition GetSwitchValueASCII :: "command_line \<Rightarrow> switch \<Rightarrow> string" where
  "GetSwitchValueASCII cl s = (case cl s of None \<Rightarrow> [] | Some v \<Rightarrow> v)"

subsection \<open>File paths\<close>

text \<open>
  A \<^verbatim>\<open>base::FilePath\<close> is the list of its components; the default-constructed
  path is the empty list and \<^verbatim>\<open>Append\<close> adds one component at the end.
\<close>

type_synonym file_path = "string list"

definition FilePath :: file_path where
  "FilePath = []"

definition Append :: "file_path \<Rightarrow> string \<Rightarrow> file_path" where
  "Append p component = p @ [component]"

subsection \<open>Cache backend factories\<close>

datatype cache_type = DISK_CACHE | MEMORY_CACHE

datatype backend_type = CACHE_BACKEND_DEFAULT

text \<open>
  The three \<^verbatim>\<open>net::HttpCache::BackendFactory\<close> objects the file can produce: its
  own \<^verbatim>\<open>NoCacheBackend\<close>, the library's \<^verbatim>\<open>DefaultBackend::InMemory(max_bytes)\<close> and
  the library's \<^verbatim>\<open>DefaultBackend(type, backend_type, path, max_bytes)\<close>.
\<close>

datatype backend_factory =
    NoCacheBackend
  | InMemory int
  | DefaultBackend cache_type backend_type file_path int

text \<open>\<^verbatim>\<open>net::ERR_FAILED\<close> and \<^verbatim>\<open>net::OK\<close> of the library's error list.\<close>

definition ERR_FAILED :: int where
  "ERR_FAILED = - 2"

definition OK :: int where
  "OK = 0"

text \<open>
  The virtual call \<^verbatim>\<open>CreateBackend(net_log, backend, callback)\<close>. The override of
  \<^verbatim>\<open>NoCacheBackend\<close> ignores its arguments and returns \<^verbatim>\<open>net::ERR_FAILED\<close>; the
  library's own backends are the parameter \<open>library_create\<close>, applied to the
  backend and the arguments of the call.
\<close>

fun CreateBackend ::
  "(backend_factory \<Rightarrow> 'a \<Rightarrow> int) \<Rightarrow> backend_factory \<Rightarrow> 'a \<Rightarrow> int" where
  "CreateBackend library_create NoCacheBackend args = ERR_FAILED"
| "CreateBackend library_create (InMemory n) args = library_create (InMemory n) args"
| "CreateBackend library_create (DefaultBackend t b p n) args =
     library_create (DefaultBackend t b p n) args"

text \<open>
  \<^verbatim>\<open>CreateHttpCacheBackendFactory(use_cache, base_path)\<close>. \<open>StringToInt\<close> is the
  value \<^verbatim>\<open>base::StringToInt\<close> leaves in \<^verbatim>\<open>max_size\<close> for the text of the
  disk-cache-size switch.
\<close>

definition CreateHttpCacheBackendFactory ::
  "command_line \<Rightarrow> (string \<Rightarrow> int) \<Rightarrow> bool \<Rightarrow> file_path \<Rightarrow> backend_factory" where
  "CreateHttpCacheBackendFactory command_line StringToInt use_cache_arg base_path_arg =
     (if \<not> use_cache_arg \<or> HasSwitch command_line kDisableHttpCache then NoCacheBackend
      else
        let max_size = StringToInt (GetSwitchValueASCII command_line kDiskCacheSize);
            cache_path = Append base_path_arg ''Cache''
        in DefaultBackend DISK_CACHE CACHE_BACKEND_DEFAULT cache_path max_size)"

subsection \<open>Scheme dispatch table\<close>

text \<open>
  Host resolvers: the default one, or a \<^verbatim>\<open>net::MappedHostResolver\<close> around another
  resolver with the rules string it was given.
\<close>

datatype host_resolver =
    DefaultResolver
  | MappedHostResolver host_resolver string

text \<open>
  Protocol handlers. \<open>'h\<close> is whatever the embedder registered; the other
  constructors are the handlers \<^verbatim>\<open>CreateURLRequestJobFactory\<close> makes itself.
\<close>

datatype 'h protocol_handler =
    ExternalHandler 'h
  | AboutProtocolHandler
  | DataProtocolHandler
  | AsarProtocolHandler
  | HttpProtocolHandler string
  | FtpProtocolHandler host_resolver

text \<open>
  \<^verbatim>\<open>content::ProtocolHandlerMap\<close> is a \<^verbatim>\<open>std::map\<close> from scheme to an owned
  handler. It is the list of its entries in iteration order; the handlers in it are
  objects, never null.
\<close>

type_synonym 'h ProtocolHandlerMap = "(string \<times> 'h protocol_handler) list"

text \<open>The table of \<^verbatim>\<open>AtomURLRequestJobFactory\<close>: scheme to handler.\<close>

type_synonym 'h AtomURLRequestJobFactory = "string \<Rightarrow> 'h protocol_handler option"

text \<open>
  Modelled from the spec: \<^verbatim>\<open>AtomURLRequestJobFactory::SetProtocolHandler\<close>, defined
  in \<^verbatim>\<open>atom/browser/net/atom_url_request_job_factory.cc\<close>, a file this
  development does not embed. Section 4.2 of the specification: \<^emph>\<open>register(scheme, handler) fails
  (silently ignored or asserts, implementation choice) if scheme already registered\<close>.
  The result is the success flag and the table afterwards.
\<close>

definition SetProtocolHandler ::
  "string \<Rightarrow> 'h protocol_handler \<Rightarrow> 'h AtomURLRequestJobFactory
     \<Rightarrow> bool \<times> 'h AtomURLRequestJobFactory" where
  "SetProtocolHandler scheme handler table =
     (case table scheme of
        Some existing \<Rightarrow> (False, table)
      | None \<Rightarrow> (True, table(scheme \<mapsto> handler)))"

text \<open>
  Modelled from the spec: the lookup of \<^verbatim>\<open>AtomURLRequestJobFactory\<close>, from the same
  file. Section 4.2: \<^emph>\<open>resolve(scheme) yields handler or none\<close>.
\<close>

definition resolve ::
  "'h AtomURLRequestJobFactory \<Rightarrow> string \<Rightarrow> 'h protocol_handler option" where
  "resolve table scheme = table scheme"

text \<open>The scheme constants of \<^verbatim>\<open>url/url_constants.h\<close>.\<close>

definition kAboutScheme :: string where "kAboutScheme = ''about''"
definition kDataScheme :: string where "kDataScheme = ''data''"
definition kFileScheme :: string where "kFileScheme = ''file''"
definition kHttpScheme :: string where "kHttpScheme = ''http''"
definition kHttpsScheme :: string where "kHttpsScheme = ''https''"
definition kWsScheme :: string where "kWsScheme = ''ws''"
definition kWssScheme :: string where "kWssScheme = ''wss''"
definition kFtpScheme :: string where "kFtpScheme = ''ftp''"

text \<open>
  A call \<^verbatim>\<open>job_factory->SetProtocolHandler(scheme, handler)\<close> whose result the
  caller drops.
\<close>

definition set_handler ::
  "string \<Rightarrow> 'h protocol_handler \<Rightarrow> 'h AtomURLRequestJobFactory
     \<Rightarrow> 'h AtomURLRequestJobFactory" where
  "set_handler scheme handler table = snd (SetProtocolHandler scheme handler table)"

text \<open>
  \<^verbatim>\<open>CreateURLRequestJobFactory(protocol_handlers, host_resolver)\<close>: the new table,
  and the caller's map as the function leaves it (cleared).
\<close>

definition CreateURLRequestJobFactory ::
  "'h ProtocolHandlerMap \<Rightarrow> host_resolver
     \<Rightarrow> 'h AtomURLRequestJobFactory \<times> 'h ProtocolHandlerMap" where
  "CreateURLRequestJobFactory protocol_handlers_arg resolver =
     (let t0 = fold (\<lambda>it. set_handler (fst it) (snd it)) protocol_handlers_arg Map.empty;
          t1 = set_handler kAboutScheme AboutProtocolHandler t0;
          t2 = set_handler kDataScheme DataProtocolHandler t1;
          t3 = set_handler kFileScheme AsarProtocolHandler t2;
          t4 = set_handler kHttpScheme (HttpProtocolHandler kHttpScheme) t3;
          t5 = set_handler kHttpsScheme (HttpProtocolHandler kHttpsScheme) t4;
          t6 = set_handler kWsScheme (HttpProtocolHandler kWsScheme) t5;
          t7 = set_handler kWssScheme (HttpProtocolHandler kWssScheme) t6;
          t8 = set_handler kFtpScheme (FtpProtocolHandler resolver) t7
      in (t8, []))"

subsection \<open>Interceptor chain\<close>

text \<open>
  A \<^verbatim>\<open>net::URLRequestJobFactory\<close> as \<^verbatim>\<open>Create\<close> can build one: the table, or
  \<^verbatim>\<open>new net::URLRequestInterceptingJobFactory(job_factory, interceptor)\<close> around
  another factory. \<open>'i\<close> is the type of the embedder's interceptors.
\<close>

datatype ('i, 'h) job_factory =
    BaseJobFactory "'h AtomURLRequestJobFactory"
  | URLRequestInterceptingJobFactory "('i, 'h) job_factory" 'i

text \<open>The table at the core of a factory, under all its wrappers.\<close>

fun dispatch_table :: "('i, 'h) job_factory \<Rightarrow> 'h AtomURLRequestJobFactory" where
  "dispatch_table (BaseJobFactory table) = table"
| "dispatch_table (URLRequestInterceptingJobFactory inner interceptor) = dispatch_table inner"

text \<open>
  Who is asked about a request, in the order of asking. The library's intercepting
  factory offers the request to its own interceptor
  (\<^verbatim>\<open>MaybeInterceptRequest\<close>) and passes it to the factory it wraps only when the
  interceptor declines; \<open>claims i r\<close> says that interceptor \<open>i\<close> takes
  request \<open>r\<close>.
\<close>

datatype 'i consulted = Interceptor 'i | DispatchTable

fun consults :: "('i \<Rightarrow> 'r \<Rightarrow> bool) \<Rightarrow> ('i, 'h) job_factory \<Rightarrow> 'r \<Rightarrow> 'i consulted list" where
  "consults claims (BaseJobFactory table) r = [DispatchTable]"
| "consults claims (URLRequestInterceptingJobFactory inner i) r =
     Interceptor i # (if claims i r then [] else consults claims inner r)"

text \<open>
  The order the specification asks for, read off the registration list: each
  interceptor in turn from the first, stopping at the first that takes the request,
  and the dispatch table after the last.
\<close>

fun registration_order :: "('i \<Rightarrow> 'r \<Rightarrow> bool) \<Rightarrow> 'i list \<Rightarrow> 'r \<Rightarrow> 'i consulted list" where
  "registration_order claims [] r = [DispatchTable]"
| "registration_order claims (i # rest) r =
     Interceptor i # (if claims i r then [] else registration_order claims rest r)"

text \<open>
  The loop of \<^verbatim>\<open>Create\<close> from \<^verbatim>\<open>rbegin()\<close> to \<^verbatim>\<open>rend()\<close>: each step replaces
  \<^verbatim>\<open>top_job_factory\<close> by a wrapper around it. The argument is the interceptors
  still to visit, in the order the reverse iterator visits them.
\<close>

fun wrap_loop :: "('i, 'h) job_factory \<Rightarrow> 'i list \<Rightarrow> ('i, 'h) job_factory" where
  "wrap_loop top_job_factory [] = top_job_factory"
| "wrap_loop top_job_factory (it # remaining) =
     wrap_loop (URLRequestInterceptingJobFactory top_job_factory it) remaining"

subsection \<open>Proxy resolution, authentication, session parameters\<close>

text \<open>
  \<^verbatim>\<open>net::ProxyConfig\<close>, as far as this file writes it: the text given to
  \<^verbatim>\<open>proxy_rules().ParseFromString\<close>, the text given to
  \<^verbatim>\<open>bypass_rules.ParseFromString\<close>, the PAC URL and the mandatory flag.
\<close>

record proxy_config =
  proxy_rules :: string
  bypass_rules :: string
  pac_url :: "string option"
  pac_mandatory :: bool

definition default_ProxyConfig :: proxy_config where
  "default_ProxyConfig =
     \<lparr>proxy_rules = [], bypass_rules = [], pac_url = None, pac_mandatory = False\<rparr>"

definition CreateFromCustomPacURL :: "string \<Rightarrow> proxy_config" where
  "CreateFromCustomPacURL url = default_ProxyConfig\<lparr>pac_url := Some url\<rparr>"

text \<open>
  The object \<^verbatim>\<open>CreateSystemProxyConfigService\<close> returns for the IO task runner,
  and the net log (\<open>logging\<close> once \<^verbatim>\<open>StartLogging\<close> has run).
\<close>

datatype proxy_config_service = SystemProxyConfigService

datatype net_log = NetLog (logging: bool)

datatype proxy_resolution_service =
    CreateDirect
  | CreateFixed proxy_config
  | CreateUsingSystemProxyResolver "proxy_config_service option" "net_log option"

record http_auth_preferences =
  auth_schemes :: "string list"
  server_whitelist :: "string option"
  delegate_whitelist :: "string option"

datatype http_auth_handler_factory =
  HttpAuthHandlerRegistryFactory http_auth_preferences host_resolver

fun auth_preferences :: "http_auth_handler_factory \<Rightarrow> http_auth_preferences" where
  "auth_preferences (HttpAuthHandlerRegistryFactory prefs resolver) = prefs"

text \<open>
  \<^verbatim>\<open>net::HttpNetworkSession::Params\<close>, the three members the file sets.
  \<^verbatim>\<open>enable_http2\<close> is true in a default-constructed value.
\<close>

record network_session_params =
  enable_http2 :: bool
  ignore_certificate_errors :: bool
  host_mapping_rules :: "string option"

subsection \<open>The served context and the builder\<close>

record cookie_store =
  cookie_path :: file_path
  cookieable :: "string list"

record ('i, 'h) url_request_context =
  context_net_log :: "net_log option"
  context_cookie_store :: cookie_store
  http_user_agent :: string
  context_host_resolver :: host_resolver
  proxy_resolution :: proxy_resolution_service
  auth_handler_factory :: http_auth_handler_factory
  session_params :: network_session_params
  http_cache_backend :: backend_factory
  context_job_factory :: "('i, 'h) job_factory"

text \<open>
  The members of \<^verbatim>\<open>AtomMainRequestContextFactory\<close>. \<open>browser_context\<close> tells
  whether the weak pointer to the profile was bound to a profile at all;
  \<open>job_factory_raw\<close> is the raw pointer \<^verbatim>\<open>job_factory_\<close>;
  \<open>cookie_change_sub\<close> tells whether the change subscription is installed;
  \<open>weak_ptrs_valid\<close> is the state of \<^verbatim>\<open>weak_ptr_factory_\<close>: true until
  \<^verbatim>\<open>InvalidateWeakPtrs\<close> has run.
\<close>

record ('i, 'h) factory =
  base_path :: file_path
  in_memory :: bool
  use_cache :: bool
  user_agent :: string
  cookieable_schemes :: "string list"
  protocol_handlers :: "'h ProtocolHandlerMap"
  request_interceptors :: "'i list"
  job_factory_raw :: "'h AtomURLRequestJobFactory option"
  browser_context :: bool
  net_log_member :: "net_log option"
  proxy_config_service_member :: "proxy_config_service option"
  url_request_context :: "('i, 'h) url_request_context option"
  cookie_change_sub :: bool
  weak_ptrs_valid :: bool

text \<open>
  The constructor. \<open>protocol_handlers_arg\<close> is the pointer argument (\<open>None\<close> for
  null); the member starts empty and is swapped with the pointee.
\<close>

definition AtomMainRequestContextFactory ::
  "file_path \<Rightarrow> bool \<Rightarrow> bool \<Rightarrow> string \<Rightarrow> string list \<Rightarrow> 'h ProtocolHandlerMap option
     \<Rightarrow> 'i list \<Rightarrow> bool \<Rightarrow> net_log option \<Rightarrow> ('i, 'h) factory" where
  "AtomMainRequestContextFactory path in_memory_arg use_cache_arg user_agent_arg
       cookieable_schemes_arg protocol_handlers_arg request_interceptors_arg
       browser_context_arg net_log_arg =
     \<lparr>base_path = path,
      in_memory = in_memory_arg,
      use_cache = use_cache_arg,
      user_agent = user_agent_arg,
      cookieable_schemes = cookieable_schemes_arg,
      protocol_handlers = (case protocol_handlers_arg of None \<Rightarrow> [] | Some m \<Rightarrow> m),
      request_interceptors = request_interceptors_arg,
      job_factory_raw = None,
      browser_context = browser_context_arg,
      net_log_member = net_log_arg,
      proxy_config_service_member = Some SystemProxyConfigService,
      url_request_context = None,
      cookie_change_sub = False,
      weak_ptrs_valid = True\<rparr>"

text \<open>The destructor: its body invalidates the weak pointers handed out so far.\<close>

definition InvalidateWeakPtrs :: "('i, 'h) factory \<Rightarrow> ('i, 'h) factory" where
  "InvalidateWeakPtrs f = f\<lparr>weak_ptrs_valid := False\<rparr>"

definition destructor :: "('i, 'h) factory \<Rightarrow> ('i, 'h) factory" where
  "destructor f = InvalidateWeakPtrs f"

text \<open>
  \<^verbatim>\<open>Create()\<close>, in the order of the source: net log, cookie store, host resolver,
  proxy resolution, authentication, session parameters, cache backend, dispatch
  table, interceptors. The result is the returned context and the builder
  afterwards. Each branch of the proxy selection gives the service it installs and
  what it leaves in \<^verbatim>\<open>proxy_config_service_\<close>, which only the last branch moves
  out. The parts of the context that \<^verbatim>\<open>Create\<close> sets to fixed objects
  whatever its inputs (network delegate, channel-ID service, certificate verifier,
  certificate-transparency verifier and enforcer, SSL configuration, server
  properties) carry no information and have no field here.
\<close>

definition Create ::
  "command_line \<Rightarrow> (string \<Rightarrow> int) \<Rightarrow> ('i, 'h) factory
     \<Rightarrow> ('i, 'h) url_request_context \<times> ('i, 'h) factory" where
  "Create command_line StringToInt f =
     (let
        started_log = (case net_log_member f of None \<Rightarrow> None | Some l \<Rightarrow> Some (NetLog True));
        cookie_path_local =
          (if in_memory f then FilePath else Append (base_path f) ''Cookies'');
        store = \<lparr>cookie_path = cookie_path_local, cookieable = cookieable_schemes f\<rparr>;
        resolver =
          (if HasSwitch command_line kHostResolverRules
           then MappedHostResolver DefaultResolver
                  (GetSwitchValueASCII command_line kHostResolverRules)
           else DefaultResolver);
        proxy =
          (if HasSwitch command_line kNoProxyServer
           then (CreateDirect, proxy_config_service_member f)
           else if HasSwitch command_line kProxyServer then
             (CreateFixed
                (default_ProxyConfig
                   \<lparr>proxy_rules := GetSwitchValueASCII command_line kProxyServer,
                    bypass_rules := GetSwitchValueASCII command_line kProxyBypassList\<rparr>),
              proxy_config_service_member f)
           else if HasSwitch command_line kProxyPacUrl then
             (CreateFixed
                ((CreateFromCustomPacURL (GetSwitchValueASCII command_line kProxyPacUrl))
                   \<lparr>pac_mandatory := True\<rparr>),
              proxy_config_service_member f)
           else
             (CreateUsingSystemProxyResolver (proxy_config_service_member f) started_log,
              None));
        schemes = [] @ [''basic''] @ [''digest''] @ [''ntlm''] @ [''negotiate''];
        prefs0 = \<lparr>auth_schemes = schemes, server_whitelist = None, delegate_whitelist = None\<rparr>;
        prefs1 =
          (if HasSwitch command_line kAuthServerWhitelist
           then prefs0\<lparr>server_whitelist :=
                  Some (GetSwitchValueASCII command_line kAuthServerWhitelist)\<rparr>
           else prefs0);
        prefs2 =
          (if HasSwitch command_line kAuthNegotiateDelegateWhitelist
           then prefs1\<lparr>delegate_whitelist :=
                  Some (GetSwitchValueASCII command_line kAuthNegotiateDelegateWhitelist)\<rparr>
           else prefs1);
        auth = HttpAuthHandlerRegistryFactory prefs2 resolver;
        params0 =
          \<lparr>enable_http2 = True, ignore_certificate_errors = False,
           host_mapping_rules = None\<rparr>;
        params1 =
          (if HasSwitch command_line kDisableHttp2 then params0\<lparr>enable_http2 := False\<rparr>
           else params0);
        params2 =
          (if HasSwitch command_line kIgnoreCertificateErrors
           then params1\<lparr>ignore_certificate_errors := True\<rparr>
           else params1);
        params3 =
          (if HasSwitch command_line kHostRules
           then params2\<lparr>host_mapping_rules :=
                  Some (GetSwitchValueASCII command_line kHostRules)\<rparr>
           else params2);
        backend =
          (if in_memory f then InMemory 0
           else CreateHttpCacheBackendFactory command_line StringToInt
                  (use_cache f) (base_path f));
        built = CreateURLRequestJobFactory (protocol_handlers f) resolver;
        job_factory_local = fst built;
        top_job_factory =
          (if request_interceptors f \<noteq> []
           then wrap_loop (BaseJobFactory job_factory_local) (rev (request_interceptors f))
           else BaseJobFactory job_factory_local);
        cleared_interceptors =
          (if request_interceptors f \<noteq> [] then [] else request_interceptors f);
        context =
          \<lparr>context_net_log = started_log,
           context_cookie_store = store,
           http_user_agent = user_agent f,
           context_host_resolver = resolver,
           proxy_resolution = fst proxy,
           auth_handler_factory = auth,
           session_params = params3,
           http_cache_backend = backend,
           context_job_factory = top_job_factory\<rparr>
      in (context,
          f\<lparr>net_log_member := started_log,
            proxy_config_service_member := snd proxy,
            protocol_handlers := snd built,
            request_interceptors := cleared_interceptors,
            job_factory_raw := Some job_factory_local,
            url_request_context := Some context,
            cookie_change_sub := True\<rparr>))"

subsection \<open>Cookie change notification across the two threads\<close>

text \<open>\<^verbatim>\<open>net::CookieChangeCause\<close> and the \<^verbatim>\<open>CookieDetails\<close> handed to the profile.\<close>

datatype cookie_change_cause =
    INSERTED
  | EXPLICIT
  | UNKNOWN_DELETION
  | OVERWRITE
  | EXPIRED
  | EVICTED
  | EXPIRED_OVERWRITE

record 'c cookie_details =
  cookie :: 'c
  removed :: bool
  cause :: cookie_change_cause

text \<open>
  A task posted to the UI thread: \<^verbatim>\<open>NotifyCookieChange\<close> bound to a weak pointer
  to the builder, the cookie and the cause.
\<close>

datatype 'c posted_task = NotifyCookieChangeTask 'c cookie_change_cause

text \<open>
  What the two threads share: the builder, whether the profile behind
  \<^verbatim>\<open>browser_context_\<close> still exists, the tasks waiting on the UI thread (oldest
  first), and the notifications the profile has received (oldest first).
\<close>

record ('i, 'h, 'c) threads =
  builder :: "('i, 'h) factory"
  profile_alive :: bool
  ui_task_queue :: "'c posted_task list"
  profile_notified :: "'c cookie_details list"

definition OnCookieChanged ::
  "'c \<Rightarrow> cookie_change_cause \<Rightarrow> ('i, 'h, 'c) threads \<Rightarrow> ('i, 'h, 'c) threads" where
  "OnCookieChanged cookie_arg cause_arg w =
     w\<lparr>ui_task_queue := ui_task_queue w @ [NotifyCookieChangeTask cookie_arg cause_arg]\<rparr>"

definition NotifyCookieChange ::
  "'c \<Rightarrow> cookie_change_cause \<Rightarrow> ('i, 'h, 'c) threads \<Rightarrow> ('i, 'h, 'c) threads" where
  "NotifyCookieChange cookie_arg cause_arg w =
     (let details =
            \<lparr>cookie = cookie_arg, removed = (\<not> (cause_arg = INSERTED)), cause = cause_arg\<rparr>
      in if browser_context (builder w) \<and> profile_alive w
         then w\<lparr>profile_notified := profile_notified w @ [details]\<rparr>
         else w)"

text \<open>
  Running a posted task: a callback bound to a weak pointer runs its method when the
  pointer is still valid and does nothing otherwise. Once the destructor has run the
  builder is gone, so a weak pointer to it is invalid from then on, whenever it was
  obtained; the one flag \<open>weak_ptrs_valid\<close> therefore serves every posted task.
\<close>

fun run_task :: "'c posted_task \<Rightarrow> ('i, 'h, 'c) threads \<Rightarrow> ('i, 'h, 'c) threads" where
  "run_task (NotifyCookieChangeTask cookie_arg cause_arg) w =
     (if weak_ptrs_valid (builder w) then NotifyCookieChange cookie_arg cause_arg w else w)"

text \<open>
  The events that can happen, one at a time in any order: the cookie store calls
  \<^verbatim>\<open>OnCookieChanged\<close> on the IO thread; the UI thread runs its oldest waiting task;
  the builder is destroyed; the profile is destroyed.
\<close>

datatype 'c event =
    CookieChanged 'c cookie_change_cause
  | UITaskRun
  | BuilderDestroyed
  | ProfileDestroyed

fun step :: "'c event \<Rightarrow> ('i, 'h, 'c) threads \<Rightarrow> ('i, 'h, 'c) threads" where
  "step (CookieChanged cookie_arg cause_arg) w = OnCookieChanged cookie_arg cause_arg w"
| "step UITaskRun w =
     (case ui_task_queue w of
        [] \<Rightarrow> w
      | t # rest \<Rightarrow> run_task t (w\<lparr>ui_task_queue := rest\<rparr>))"
| "step BuilderDestroyed w = w\<lparr>builder := destructor (builder w)\<rparr>"
| "step ProfileDestroyed w = w\<lparr>profile_alive := False\<rparr>"

fun run :: "'c event list \<Rightarrow> ('i, 'h, 'c) threads \<Rightarrow> ('i, 'h, 'c) threads" where
  "run [] w = w"
| "run (e # es) w = run es (step e w)"

subsection \<open>Sample configurations\<close>

text \<open>Concrete inputs on which the theorems below are evaluated.\<close>

definition no_switches :: command_line where
  "no_switches = Map.empty"

definition sample_StringToInt :: "string \<Rightarrow> int" where
  "sample_StringToInt s = 0"

definition sample_builder :: "(nat, nat) factory" where
  "sample_builder =
     AtomMainRequestContextFactory [''profile''] False True ''agent'' [''custom'']
       (Some [(''app'', ExternalHandler 7), (''http'', ExternalHandler 8)])
       [1, 2, 3] True None"

definition bare_builder :: "(nat, nat) factory" where
  "bare_builder =
     AtomMainRequestContextFactory [''profile''] False True ''agent'' [''custom'']
       None [] True None"

definition claims_own_number :: "nat \<Rightarrow> nat \<Rightarrow> bool" where
  "claims_own_number i r = (i = r)"

definition memory_builder :: "(nat, nat) factory" where
  "memory_builder =
     AtomMainRequestContextFactory [''profile''] True False ''agent'' []
       None [] True None"

definition uncached_builder :: "(nat, nat) factory" where
  "uncached_builder =
     AtomMainRequestContextFactory [''profile''] False False ''agent'' []
       None [] True None"

definition library_create_ok :: "backend_factory \<Rightarrow> unit \<Rightarrow> int" where
  "library_create_ok b args = OK"

definition cache_disabled :: command_line where
  "cache_disabled = [kDisableHttpCache \<mapsto> []]"

definition whitelists :: command_line where
  "whitelists = [kAuthServerWhitelist \<mapsto> ''*example.com'']"

definition both_proxy_switches :: command_line where
  "both_proxy_switches = [kNoProxyServer \<mapsto> [], kProxyServer \<mapsto> ''proxy:8080'']"

definition fixed_proxy_switches :: command_line where
  "fixed_proxy_switches =
     [kProxyServer \<mapsto> ''proxy:8080'', kProxyBypassList \<mapsto> ''localhost'',
      kProxyPacUrl \<mapsto> ''http://pac/'']"

definition pac_switches :: command_line where
  "pac_switches = [kProxyPacUrl \<mapsto> ''http://pac/'']"

definition sample_threads :: "(nat, nat, string) threads" where
  "sample_threads =
     \<lparr>builder = sample_builder, profile_alive = True, ui_task_queue = [],
      profile_notified = []\<rparr>"

definition busy_threads :: "(nat, nat, string) threads" where
  "busy_threads =
     \<lparr>builder = sample_builder, profile_alive = True,
      ui_task_queue = [NotifyCookieChangeTask ''old'' EXPIRED],
      profile_notified = []\<rparr>"

section \<open>Properties\<close>

subsection \<open>Auxiliary facts\<close>

lemma fold_set_handler:
  "fold (\<lambda>it. set_handler (fst it) (snd it)) hs t s =
     (case t s of Some h \<Rightarrow> Some h | None \<Rightarrow> map_of hs s)"
proof (induction hs arbitrary: t)
  case Nil
  then show ?case by (simp split: option.splits)
next
  case (Cons a hs)
  then show ?case
    by (cases a) (auto simp: set_handler_def SetProtocolHandler_def split: option.splits)
qed

lemma set_handler_apply:
  "set_handler k h t s =
     (case t s of Some x \<Rightarrow> Some x | None \<Rightarrow> if s = k then Some h else None)"
  by (auto simp: set_handler_def SetProtocolHandler_def split: option.splits)

lemma CreateURLRequestJobFactory_lookup:
  "fst (CreateURLRequestJobFactory hs resolver) s =
     (case map_of hs s of
        Some h \<Rightarrow> Some h
      | None \<Rightarrow>
          if s = ''about'' then Some AboutProtocolHandler
          else if s = ''data'' then Some DataProtocolHandler
          else if s = ''file'' then Some AsarProtocolHandler
          else if s = ''http'' then Some (HttpProtocolHandler ''http'')
          else if s = ''https'' then Some (HttpProtocolHandler ''https'')
          else if s = ''ws'' then Some (HttpProtocolHandler ''ws'')
          else if s = ''wss'' then Some (HttpProtocolHandler ''wss'')
          else if s = ''ftp'' then Some (FtpProtocolHandler resolver)
          else None)"
  by (simp add: CreateURLRequestJobFactory_def Let_def set_handler_apply fold_set_handler
        kAboutScheme_def kDataScheme_def kFileScheme_def kHttpScheme_def kHttpsScheme_def
        kWsScheme_def kWssScheme_def kFtpScheme_def split: option.splits)

lemma dispatch_table_wrap_loop: "dispatch_table (wrap_loop jf is) = dispatch_table jf"
  by (induction "is" arbitrary: jf) simp_all

lemma wrap_loop_foldr:
  "wrap_loop jf is = foldr (\<lambda>i inner. URLRequestInterceptingJobFactory inner i) (rev is) jf"
  by (induction "is" arbitrary: jf) simp_all

lemma consults_foldr:
  "consults claims
       (foldr (\<lambda>i inner. URLRequestInterceptingJobFactory inner i) is (BaseJobFactory t)) r
     = registration_order claims is r"
  by (induction "is") simp_all

lemma Create_dispatch_table:
  "dispatch_table (context_job_factory (fst (Create cl sti f))) =
     fst (CreateURLRequestJobFactory (protocol_handlers f)
       (context_host_resolver (fst (Create cl sti f))))"
  by (simp add: Create_def Let_def dispatch_table_wrap_loop)

lemma no_switches_resolver:
  "context_host_resolver (fst (Create no_switches sti f)) = DefaultResolver"
  by (simp add: Create_def Let_def no_switches_def HasSwitch_def)

lemma sample_builder_members:
  "request_interceptors sample_builder = [1, 2, 3]"
  "protocol_handlers sample_builder =
     [(''app'', ExternalHandler 7), (''http'', ExternalHandler 8)]"
  "in_memory sample_builder = False"
  "use_cache sample_builder = True"
  "base_path sample_builder = [''profile'']"
  by (simp_all add: sample_builder_def AtomMainRequestContextFactory_def)

lemma bare_builder_members:
  "request_interceptors bare_builder = []"
  "protocol_handlers bare_builder = []"
  by (simp_all add: bare_builder_def AtomMainRequestContextFactory_def)

lemma Create_backend:
  "http_cache_backend (fst (Create cl sti f)) =
     (if in_memory f then InMemory 0
      else CreateHttpCacheBackendFactory cl sti (use_cache f) (base_path f))"
  by (simp add: Create_def Let_def)

lemma Create_returns_context:
  "url_request_context (snd (Create cl sti f)) = Some (fst (Create cl sti f))"
  by (simp add: Create_def Let_def)

lemma Create_proxy:
  "proxy_resolution (fst (Create cl sti f)) =
     (if HasSwitch cl kNoProxyServer then CreateDirect
      else if HasSwitch cl kProxyServer then
        CreateFixed \<lparr>proxy_rules = GetSwitchValueASCII cl kProxyServer,
          bypass_rules = GetSwitchValueASCII cl kProxyBypassList,
          pac_url = None, pac_mandatory = False\<rparr>
      else if HasSwitch cl kProxyPacUrl then
        CreateFixed \<lparr>proxy_rules = [], bypass_rules = [],
          pac_url = Some (GetSwitchValueASCII cl kProxyPacUrl), pac_mandatory = True\<rparr>
      else CreateUsingSystemProxyResolver (proxy_config_service_member f)
             (context_net_log (fst (Create cl sti f))))"
  by (simp add: Create_def Let_def default_ProxyConfig_def CreateFromCustomPacURL_def)

lemma Create_proxy_member:
  "proxy_config_service_member (snd (Create cl sti f)) =
     (if HasSwitch cl kNoProxyServer \<or> HasSwitch cl kProxyServer \<or> HasSwitch cl kProxyPacUrl
      then proxy_config_service_member f else None)"
  by (simp add: Create_def Let_def)

lemma constructor_proxy_member:
  "proxy_config_service_member
     (AtomMainRequestContextFactory path im uc ua cs ph ri bc nl) =
   Some SystemProxyConfigService"
  by (simp add: AtomMainRequestContextFactory_def)

lemma step_after_teardown:
  "\<not> weak_ptrs_valid (builder w) \<Longrightarrow>
     \<not> weak_ptrs_valid (builder (step e w)) \<and> profile_notified (step e w) = profile_notified w"
proof (cases e)
  case (CookieChanged c k)
  then show "\<not> weak_ptrs_valid (builder w) \<Longrightarrow> ?thesis"
    by (simp add: OnCookieChanged_def)
next
  case UITaskRun
  show "\<not> weak_ptrs_valid (builder w) \<Longrightarrow> ?thesis"
  proof (cases "ui_task_queue w")
    case Nil
    with UITaskRun show "\<not> weak_ptrs_valid (builder w) \<Longrightarrow> ?thesis" by simp
  next
    case (Cons t rest)
    with UITaskRun show "\<not> weak_ptrs_valid (builder w) \<Longrightarrow> ?thesis" by (cases t) simp
  qed
next
  case BuilderDestroyed
  then show "\<not> weak_ptrs_valid (builder w) \<Longrightarrow> ?thesis"
    by (simp add: destructor_def InvalidateWeakPtrs_def)
next
  case ProfileDestroyed
  then show "\<not> weak_ptrs_valid (builder w) \<Longrightarrow> ?thesis" by simp
qed

lemma run_after_teardown:
  "\<not> weak_ptrs_valid (builder w) \<Longrightarrow> profile_notified (run evs w) = profile_notified w"
proof (induction evs arbitrary: w)
  case Nil
  show ?case by simp
next
  case (Cons e evs)
  from step_after_teardown [OF Cons.prems, of e]
  have inv: "\<not> weak_ptrs_valid (builder (step e w))"
    and same: "profile_notified (step e w) = profile_notified w" by simp_all
  from Cons.IH [OF inv] same show ?case by simp
qed

lemma run_task_queue: "ui_task_queue (run_task t w) = ui_task_queue w"
  by (cases t) (simp add: NotifyCookieChange_def)

lemma queue_position:
  "ui_task_queue w = q @ t # later \<Longrightarrow> count_list evs UITaskRun = length q \<Longrightarrow>
     ui_task_queue (run evs w) \<noteq> [] \<and> hd (ui_task_queue (run evs w)) = t"
proof (induction evs arbitrary: w q later)
  case Nil
  then show ?case by simp
next
  case (Cons e evs)
  show ?case
  proof (cases e)
    case (CookieChanged c k)
    with Cons.prems have "ui_task_queue (step e w) = q @ t # (later @ [NotifyCookieChangeTask c k])"
      and "count_list evs UITaskRun = length q"
      by (simp_all add: OnCookieChanged_def)
    from Cons.IH [OF this] show ?thesis by simp
  next
    case UITaskRun
    with Cons.prems obtain x q' where q: "q = x # q'" and n: "count_list evs UITaskRun = length q'"
      by (cases q) auto
    with UITaskRun Cons.prems have "ui_task_queue (step e w) = q' @ t # later"
      by (simp add: run_task_queue)
    from Cons.IH [OF this n] show ?thesis by simp
  next
    case BuilderDestroyed
    with Cons.prems have "ui_task_queue (step e w) = q @ t # later"
      and "count_list evs UITaskRun = length q" by simp_all
    from Cons.IH [OF this] show ?thesis by simp
  next
    case ProfileDestroyed
    with Cons.prems have "ui_task_queue (step e w) = q @ t # later"
      and "count_list evs UITaskRun = length q" by simp_all
    from Cons.IH [OF this] show ?thesis by simp
  qed
qed

lemma deliver_head:
  "ui_task_queue w \<noteq> [] \<Longrightarrow> hd (ui_task_queue w) = NotifyCookieChangeTask c k \<Longrightarrow>
     profile_notified (step UITaskRun w) =
       profile_notified w @
         (if weak_ptrs_valid (builder w) \<and> browser_context (builder w) \<and> profile_alive w
          then [\<lparr>cookie = c, removed = (k \<noteq> INSERTED), cause = k\<rparr>]
          else [])"
  by (cases "ui_task_queue w") (simp_all add: NotifyCookieChange_def)

lemma sample_threads_members:
  "browser_context (builder sample_threads)"
  "weak_ptrs_valid (builder sample_threads)"
  "profile_alive sample_threads"
  "ui_task_queue sample_threads = []"
  "profile_notified sample_threads = []"
  by (simp_all add: sample_threads_def sample_builder_def AtomMainRequestContextFactory_def)

lemma busy_threads_members:
  "ui_task_queue busy_threads = [NotifyCookieChangeTask ''old'' EXPIRED]"
  "browser_context (builder busy_threads)"
  "weak_ptrs_valid (builder busy_threads)"
  "profile_alive busy_threads"
  "profile_notified busy_threads = []"
  by (simp_all add: busy_threads_def sample_builder_def AtomMainRequestContextFactory_def)

lemma proxy_sample_switches:
  "HasSwitch both_proxy_switches kNoProxyServer"
  "HasSwitch both_proxy_switches kProxyServer"
  "\<not> HasSwitch fixed_proxy_switches kNoProxyServer"
  "HasSwitch fixed_proxy_switches kProxyServer"
  "HasSwitch fixed_proxy_switches kProxyPacUrl"
  "GetSwitchValueASCII fixed_proxy_switches kProxyServer = ''proxy:8080''"
  "GetSwitchValueASCII fixed_proxy_switches kProxyBypassList = ''localhost''"
  "\<not> HasSwitch pac_switches kNoProxyServer"
  "\<not> HasSwitch pac_switches kProxyServer"
  "HasSwitch pac_switches kProxyPacUrl"
  "GetSwitchValueASCII pac_switches kProxyPacUrl = ''http://pac/''"
  "\<not> HasSwitch no_switches kNoProxyServer"
  "\<not> HasSwitch no_switches kProxyServer"
  "\<not> HasSwitch no_switches kProxyPacUrl"
  by (simp_all add: both_proxy_switches_def fixed_proxy_switches_def pac_switches_def
        no_switches_def HasSwitch_def GetSwitchValueASCII_def)

lemma no_switches_net_log:
  "context_net_log (fst (Create no_switches sample_StringToInt sample_builder)) = None"
  by (simp add: Create_def Let_def sample_builder_def AtomMainRequestContextFactory_def)

subsection \<open>Interceptor chain\<close>

text \<open>
  Claim C1. For every interceptor list \<open>[i1, ..., in]\<close> held by the builder,
  \<^verbatim>\<open>Create\<close> installs the dispatch table wrapped so that \<open>i1\<close> is the outermost
  wrapper and \<open>in\<close> the innermost; for every request the pipeline asks \<open>i1\<close>
  first, then \<open>i2\<close>, and so on (stopping at the first interceptor that takes the
  request), and the dispatch table after \<open>in\<close>. With an empty list the right-hand
  side of the first equation is the bare dispatch table.
\<close>

theorem Create_interceptor_order:
  "context_job_factory (fst (Create cl sti f)) =
     foldr (\<lambda>i inner. URLRequestInterceptingJobFactory inner i) (request_interceptors f)
       (BaseJobFactory (fst (CreateURLRequestJobFactory (protocol_handlers f)
          (context_host_resolver (fst (Create cl sti f))))))
   \<and> consults claims (context_job_factory (fst (Create cl sti f))) r =
       registration_order claims (request_interceptors f) r"
proof -
  let ?base = "BaseJobFactory (fst (CreateURLRequestJobFactory (protocol_handlers f)
          (context_host_resolver (fst (Create cl sti f)))))"
  have shape: "context_job_factory (fst (Create cl sti f)) =
      foldr (\<lambda>i inner. URLRequestInterceptingJobFactory inner i) (request_interceptors f) ?base"
    by (simp add: Create_def Let_def wrap_loop_foldr)
  show ?thesis
    unfolding shape by (simp add: consults_foldr)
qed

theorem Create_interceptor_order_witness:
  "context_job_factory (fst (Create no_switches sample_StringToInt sample_builder)) =
     URLRequestInterceptingJobFactory
       (URLRequestInterceptingJobFactory
          (URLRequestInterceptingJobFactory
             (BaseJobFactory (fst (CreateURLRequestJobFactory
                [(''app'', ExternalHandler 7), (''http'', ExternalHandler 8)] DefaultResolver)))
             3) 2) 1
   \<and> consults claims_own_number
         (context_job_factory (fst (Create no_switches sample_StringToInt sample_builder))) 2 =
       [Interceptor 1, Interceptor 2]
   \<and> consults claims_own_number
         (context_job_factory (fst (Create no_switches sample_StringToInt sample_builder))) 9 =
       [Interceptor 1, Interceptor 2, Interceptor 3, DispatchTable]
   \<and> consults claims_own_number
         (context_job_factory (fst (Create no_switches sample_StringToInt bare_builder))) 2 =
       [DispatchTable]"
  using
    Create_interceptor_order
      [of no_switches sample_StringToInt sample_builder claims_own_number 2]
    Create_interceptor_order
      [of no_switches sample_StringToInt sample_builder claims_own_number 9]
    Create_interceptor_order
      [of no_switches sample_StringToInt bare_builder claims_own_number 2]
  by (simp add: no_switches_resolver sample_builder_members bare_builder_members
        claims_own_number_def)

subsection \<open>Scheme dispatch table\<close>

text \<open>
  Claim C2. For every scheme that is not a key of the handler map given to the
  builder, the dispatch table built by \<^verbatim>\<open>Create\<close> resolves the scheme to a handler
  if and only if the scheme is one of about, data, file, http, https, ws, wss, ftp.
\<close>

theorem builtin_schemes_resolve:
  assumes "scheme \<notin> fst ` set (protocol_handlers f)"
  shows "(resolve (dispatch_table (context_job_factory (fst (Create cl sti f)))) scheme \<noteq> None)
     = (scheme \<in> {''about'', ''data'', ''file'', ''http'', ''https'', ''ws'', ''wss'', ''ftp''})"
proof -
  from assms have "map_of (protocol_handlers f) scheme = None"
    by (simp add: map_of_eq_None_iff)
  then show ?thesis
    by (simp add: resolve_def Create_dispatch_table CreateURLRequestJobFactory_lookup)
qed

theorem builtin_schemes_resolve_witness:
  "''ftp'' \<notin> fst ` set (protocol_handlers sample_builder)
   \<and> resolve (dispatch_table (context_job_factory
         (fst (Create no_switches sample_StringToInt sample_builder)))) ''ftp'' \<noteq> None
   \<and> ''gopher'' \<notin> fst ` set (protocol_handlers sample_builder)
   \<and> resolve (dispatch_table (context_job_factory
         (fst (Create no_switches sample_StringToInt sample_builder)))) ''gopher'' = None"
proof -
  have ftp: "''ftp'' \<notin> fst ` set (protocol_handlers sample_builder)"
    and gopher: "''gopher'' \<notin> fst ` set (protocol_handlers sample_builder)"
    by (simp_all add: sample_builder_members)
  show ?thesis
    using ftp gopher
      builtin_schemes_resolve [OF ftp, of no_switches sample_StringToInt]
      builtin_schemes_resolve [OF gopher, of no_switches sample_StringToInt]
    by simp
qed

text \<open>
  Claim C3. For every scheme that is a key of the handler map given to the builder,
  the dispatch table built by \<^verbatim>\<open>Create\<close> resolves the scheme to the handler of that
  map: the map's entries are registered first, and the registration of a built-in
  handler for the same scheme afterwards leaves the entry in place.
\<close>

theorem external_handler_kept:
  assumes "map_of (protocol_handlers f) scheme = Some handler"
  shows "resolve (dispatch_table (context_job_factory (fst (Create cl sti f)))) scheme
     = Some handler"
  using assms by (simp add: resolve_def Create_dispatch_table CreateURLRequestJobFactory_lookup)

theorem external_handler_kept_witness:
  "map_of (protocol_handlers sample_builder) ''http'' = Some (ExternalHandler 8)
   \<and> resolve (dispatch_table (context_job_factory
         (fst (Create no_switches sample_StringToInt sample_builder)))) ''http''
       = Some (ExternalHandler 8)"
proof -
  have h: "map_of (protocol_handlers sample_builder) ''http'' = Some (ExternalHandler 8)"
    by (simp add: sample_builder_members)
  show ?thesis
    using h external_handler_kept [OF h, of no_switches sample_StringToInt] by simp
qed

subsection \<open>Cache backend and cookie store\<close>

text \<open>
  An in-memory profile with caching switched off, under a command line that also
  carries the disable switch: \<^verbatim>\<open>Create\<close> takes the \<^verbatim>\<open>in_memory_\<close> branch before it
  looks at either, so the backend is the library's in-memory one and not
  \<^verbatim>\<open>NoCacheBackend\<close>; where the library creates its in-memory backend without error,
  the create operation does not return the failure code.
\<close>

theorem disabled_cache_in_memory_counterexample:
  "in_memory memory_builder
   \<and> use_cache memory_builder = False
   \<and> HasSwitch cache_disabled kDisableHttpCache
   \<and> http_cache_backend (fst (Create cache_disabled sample_StringToInt memory_builder))
       = InMemory 0
   \<and> CreateBackend library_create_ok
        (http_cache_backend (fst (Create cache_disabled sample_StringToInt memory_builder))) ()
       \<noteq> ERR_FAILED"
  by (simp add: Create_backend memory_builder_def AtomMainRequestContextFactory_def
        library_create_ok_def OK_def ERR_FAILED_def cache_disabled_def HasSwitch_def)

text \<open>
  Claim C4, amended. Whenever the builder is not in-memory and either
  \<^verbatim>\<open>use_cache\<close> is false or the disable-http-cache switch is set, the backend
  \<^verbatim>\<open>Create\<close> selects is \<^verbatim>\<open>NoCacheBackend\<close>, whose create operation returns
  \<^verbatim>\<open>ERR_FAILED\<close> for every library behaviour and every argument of the call; and
  \<^verbatim>\<open>Create\<close> still returns the context it has stored in the builder.
\<close>

theorem disabled_cache_backend_fails:
  assumes "\<not> in_memory f"
    and "\<not> use_cache f \<or> HasSwitch cl kDisableHttpCache"
  shows "http_cache_backend (fst (Create cl sti f)) = NoCacheBackend
    \<and> CreateBackend library_create (http_cache_backend (fst (Create cl sti f))) args
        = ERR_FAILED
    \<and> url_request_context (snd (Create cl sti f)) = Some (fst (Create cl sti f))"
proof -
  from assms have "http_cache_backend (fst (Create cl sti f)) = NoCacheBackend"
    by (auto simp: Create_backend CreateHttpCacheBackendFactory_def)
  then show ?thesis
    by (simp add: Create_returns_context)
qed

theorem disabled_cache_backend_fails_witness:
  "\<not> in_memory uncached_builder
   \<and> \<not> use_cache uncached_builder
   \<and> CreateBackend library_create_ok
        (http_cache_backend (fst (Create no_switches sample_StringToInt uncached_builder))) ()
       = ERR_FAILED
   \<and> \<not> in_memory sample_builder
   \<and> HasSwitch cache_disabled kDisableHttpCache
   \<and> CreateBackend library_create_ok
        (http_cache_backend (fst (Create cache_disabled sample_StringToInt sample_builder))) ()
       = ERR_FAILED
   \<and> url_request_context (snd (Create cache_disabled sample_StringToInt sample_builder))
       = Some (fst (Create cache_disabled sample_StringToInt sample_builder))"
proof -
  have a: "\<not> in_memory uncached_builder"
    and b: "\<not> use_cache uncached_builder \<or> HasSwitch no_switches kDisableHttpCache"
    by (simp_all add: uncached_builder_def AtomMainRequestContextFactory_def)
  have c: "\<not> in_memory sample_builder"
    and d: "\<not> use_cache sample_builder \<or> HasSwitch cache_disabled kDisableHttpCache"
    by (simp_all add: sample_builder_members cache_disabled_def HasSwitch_def)
  show ?thesis
    using a b c d
      disabled_cache_backend_fails [OF a b, of sample_StringToInt library_create_ok "()"]
      disabled_cache_backend_fails [OF c d, of sample_StringToInt library_create_ok "()"]
    by (simp add: uncached_builder_def AtomMainRequestContextFactory_def
          cache_disabled_def HasSwitch_def)
qed

text \<open>
  Claim C5. Whenever the builder is in-memory, \<^verbatim>\<open>Create\<close> selects the library's
  in-memory cache backend and gives the cookie store the empty path, for every
  command line and every value of \<^verbatim>\<open>use_cache\<close>.
\<close>

theorem in_memory_backend_and_cookies:
  assumes "in_memory f"
  shows "http_cache_backend (fst (Create cl sti f)) = InMemory 0
    \<and> cookie_path (context_cookie_store (fst (Create cl sti f))) = FilePath"
  using assms by (simp add: Create_def Let_def)

theorem in_memory_backend_and_cookies_witness:
  "in_memory memory_builder
   \<and> use_cache memory_builder = False
   \<and> HasSwitch cache_disabled kDisableHttpCache
   \<and> http_cache_backend (fst (Create cache_disabled sample_StringToInt memory_builder))
       = InMemory 0
   \<and> cookie_path (context_cookie_store
        (fst (Create cache_disabled sample_StringToInt memory_builder))) = []"
proof -
  have m: "in_memory memory_builder"
    by (simp add: memory_builder_def AtomMainRequestContextFactory_def)
  show ?thesis
    using m in_memory_backend_and_cookies [OF m, of cache_disabled sample_StringToInt]
    by (simp add: memory_builder_def AtomMainRequestContextFactory_def
          cache_disabled_def HasSwitch_def FilePath_def)
qed

subsection \<open>Proxy resolution\<close>

text \<open>
  Claim C6. For a builder as its constructor leaves it, the proxy resolution service
  \<^verbatim>\<open>Create\<close> installs follows the first switch present, in this order: no-proxy-server
  gives direct resolution (whatever the other switches); otherwise proxy-server gives
  a fixed configuration with the rules of that switch and the bypass list of the
  bypass switch; otherwise proxy-pac-url gives a fixed configuration with that PAC
  URL, marked mandatory; otherwise the system resolver over the proxy configuration
  service the constructor captured, which the builder no longer holds afterwards.
\<close>

theorem proxy_selection_priority:
  assumes "f = AtomMainRequestContextFactory path im uc ua cs ph ri bc nl"
  shows "(HasSwitch cl kNoProxyServer \<longrightarrow>
            proxy_resolution (fst (Create cl sti f)) = CreateDirect)
    \<and> (\<not> HasSwitch cl kNoProxyServer \<and> HasSwitch cl kProxyServer \<longrightarrow>
            proxy_resolution (fst (Create cl sti f)) =
              CreateFixed \<lparr>proxy_rules = GetSwitchValueASCII cl kProxyServer,
                bypass_rules = GetSwitchValueASCII cl kProxyBypassList,
                pac_url = None, pac_mandatory = False\<rparr>)
    \<and> (\<not> HasSwitch cl kNoProxyServer \<and> \<not> HasSwitch cl kProxyServer
          \<and> HasSwitch cl kProxyPacUrl \<longrightarrow>
            proxy_resolution (fst (Create cl sti f)) =
              CreateFixed \<lparr>proxy_rules = [], bypass_rules = [],
                pac_url = Some (GetSwitchValueASCII cl kProxyPacUrl),
                pac_mandatory = True\<rparr>)
    \<and> (\<not> HasSwitch cl kNoProxyServer \<and> \<not> HasSwitch cl kProxyServer
          \<and> \<not> HasSwitch cl kProxyPacUrl \<longrightarrow>
            proxy_resolution (fst (Create cl sti f)) =
              CreateUsingSystemProxyResolver (Some SystemProxyConfigService)
                (context_net_log (fst (Create cl sti f)))
            \<and> proxy_config_service_member (snd (Create cl sti f)) = None)"
  unfolding assms
  by (simp add: Create_proxy Create_proxy_member constructor_proxy_member)

theorem proxy_selection_priority_witness:
  "HasSwitch both_proxy_switches kNoProxyServer
   \<and> HasSwitch both_proxy_switches kProxyServer
   \<and> proxy_resolution (fst (Create both_proxy_switches sample_StringToInt sample_builder))
     = CreateDirect
   \<and> \<not> HasSwitch fixed_proxy_switches kNoProxyServer
   \<and> HasSwitch fixed_proxy_switches kProxyServer
   \<and> HasSwitch fixed_proxy_switches kProxyPacUrl
   \<and> proxy_resolution (fst (Create fixed_proxy_switches sample_StringToInt sample_builder))
     = CreateFixed \<lparr>proxy_rules = ''proxy:8080'', bypass_rules = ''localhost'',
         pac_url = None, pac_mandatory = False\<rparr>
   \<and> \<not> HasSwitch pac_switches kNoProxyServer
   \<and> \<not> HasSwitch pac_switches kProxyServer
   \<and> HasSwitch pac_switches kProxyPacUrl
   \<and> proxy_resolution (fst (Create pac_switches sample_StringToInt sample_builder))
     = CreateFixed \<lparr>proxy_rules = [], bypass_rules = [],
         pac_url = Some ''http://pac/'', pac_mandatory = True\<rparr>
   \<and> \<not> HasSwitch no_switches kNoProxyServer
   \<and> \<not> HasSwitch no_switches kProxyServer
   \<and> \<not> HasSwitch no_switches kProxyPacUrl
   \<and> proxy_resolution (fst (Create no_switches sample_StringToInt sample_builder))
     = CreateUsingSystemProxyResolver (Some SystemProxyConfigService) None
   \<and> proxy_config_service_member (snd (Create no_switches sample_StringToInt sample_builder))
     = None"
  using
    proxy_selection_priority [OF sample_builder_def, of both_proxy_switches sample_StringToInt]
    proxy_selection_priority [OF sample_builder_def, of fixed_proxy_switches sample_StringToInt]
    proxy_selection_priority [OF sample_builder_def, of pac_switches sample_StringToInt]
    proxy_selection_priority [OF sample_builder_def, of no_switches sample_StringToInt]
  by (simp add: no_switches_net_log proxy_sample_switches)

subsection \<open>Cookie change notification\<close>

text \<open>
  A cookie change is posted, the builder is destroyed, and the UI thread then runs
  the posted task while the profile is still there: the weak pointer to the builder
  bound into the task is no longer valid, \<^verbatim>\<open>NotifyCookieChange\<close> does not run, and the
  profile receives nothing although its own weak reference is valid at that moment.
\<close>

theorem delivery_iff_profile_valid_counterexample:
  "browser_context
     (builder (run [CookieChanged ''sid'' INSERTED, BuilderDestroyed] sample_threads))
   \<and> profile_alive (run [CookieChanged ''sid'' INSERTED, BuilderDestroyed] sample_threads)
   \<and> ui_task_queue (run [CookieChanged ''sid'' INSERTED, BuilderDestroyed] sample_threads)
       = [NotifyCookieChangeTask ''sid'' INSERTED]
   \<and> profile_notified
       (run [CookieChanged ''sid'' INSERTED, BuilderDestroyed, UITaskRun] sample_threads)
       = profile_notified sample_threads"
  by (simp add: OnCookieChanged_def sample_threads_members destructor_def
        InvalidateWeakPtrs_def)

text \<open>
  Claim C7, amended. Every call of \<^verbatim>\<open>OnCookieChanged\<close> posts a task to the UI
  thread. Whatever happens in between, when the UI thread comes to run that task
  (after as many task runs as there were tasks waiting ahead of it), the profile
  receives one notification carrying the cookie, the cause and a removed flag that
  is true exactly when the cause is not \<^verbatim>\<open>INSERTED\<close>, if and only if at that moment
  the builder's weak pointers have not been invalidated and the weak reference to
  the profile is valid; otherwise the profile receives nothing.
\<close>

theorem cookie_change_delivery:
  assumes "count_list evs UITaskRun = length (ui_task_queue w)"
  shows "profile_notified (step UITaskRun (run evs (OnCookieChanged c k w))) =
        profile_notified (run evs (OnCookieChanged c k w)) @
          (if weak_ptrs_valid (builder (run evs (OnCookieChanged c k w)))
              \<and> browser_context (builder (run evs (OnCookieChanged c k w)))
              \<and> profile_alive (run evs (OnCookieChanged c k w))
           then [\<lparr>cookie = c, removed = (k \<noteq> INSERTED), cause = k\<rparr>]
           else [])"
proof -
  have "ui_task_queue (OnCookieChanged c k w) = ui_task_queue w @ NotifyCookieChangeTask c k # []"
    by (simp add: OnCookieChanged_def)
  from queue_position [OF this assms]
  have "ui_task_queue (run evs (OnCookieChanged c k w)) \<noteq> []"
    and "hd (ui_task_queue (run evs (OnCookieChanged c k w))) = NotifyCookieChangeTask c k"
    by simp_all
  then show ?thesis by (rule deliver_head)
qed

theorem cookie_change_delivery_witness:
  "count_list [UITaskRun, CookieChanged ''next'' INSERTED] UITaskRun
     = length (ui_task_queue busy_threads)
   \<and> profile_notified
       (step UITaskRun
          (run [UITaskRun, CookieChanged ''next'' INSERTED]
             (OnCookieChanged ''sid'' EXPLICIT busy_threads))) =
     [\<lparr>cookie = ''old'', removed = True, cause = EXPIRED\<rparr>,
      \<lparr>cookie = ''sid'', removed = True, cause = EXPLICIT\<rparr>]
   \<and> count_list [ProfileDestroyed] (UITaskRun :: string event)
     = length (ui_task_queue sample_threads)
   \<and> profile_notified
       (step UITaskRun (run [ProfileDestroyed] (OnCookieChanged ''sid'' INSERTED sample_threads)))
     = []
   \<and> profile_notified
       (step UITaskRun (run [] (OnCookieChanged ''sid'' INSERTED sample_threads)))
     = [\<lparr>cookie = ''sid'', removed = False, cause = INSERTED\<rparr>]"
proof -
  have h1: "count_list [UITaskRun, CookieChanged ''next'' INSERTED] UITaskRun
     = length (ui_task_queue busy_threads)"
    by (simp add: busy_threads_members)
  have h2: "count_list [ProfileDestroyed] (UITaskRun :: string event)
     = length (ui_task_queue sample_threads)"
    by (simp add: sample_threads_members)
  have h3: "count_list [] (UITaskRun :: string event)
     = length (ui_task_queue sample_threads)"
    by (simp add: sample_threads_members)
  show ?thesis
    using h1 h2
      cookie_change_delivery [OF h1, of "''sid''" EXPLICIT]
      cookie_change_delivery [OF h2, of "''sid''" INSERTED]
      cookie_change_delivery [OF h3, of "''sid''" INSERTED]
    by (simp add: OnCookieChanged_def NotifyCookieChange_def sample_threads_members
          busy_threads_members)
qed

text \<open>
  Claim C8. Once the builder has been destroyed, no sequence of later events (cookie
  changes on the IO thread, task runs on the UI thread, in any number and order)
  adds a notification to those the profile has received: a change fired after the
  teardown, and a change still waiting on the UI thread at the teardown, both reach
  the UI thread as tasks that do nothing.
\<close>

theorem no_notification_after_teardown:
  "profile_notified (run evs (step BuilderDestroyed w)) = profile_notified w"
proof -
  have "\<not> weak_ptrs_valid (builder (step BuilderDestroyed w))"
    by (simp add: destructor_def InvalidateWeakPtrs_def)
  from run_after_teardown [OF this] show ?thesis by simp
qed

theorem no_notification_after_teardown_witness:
  "profile_notified
     (run [CookieChanged ''late'' EXPLICIT, UITaskRun, UITaskRun]
        (step BuilderDestroyed (step (CookieChanged ''early'' INSERTED) sample_threads))) = []
   \<and> profile_notified
       (run [CookieChanged ''early'' INSERTED, UITaskRun] sample_threads) =
     [\<lparr>cookie = ''early'', removed = False, cause = INSERTED\<rparr>]"
  using no_notification_after_teardown
    [of "[CookieChanged ''late'' EXPLICIT, UITaskRun, UITaskRun]"
        "step (CookieChanged ''early'' INSERTED) sample_threads"]
  by (simp add: OnCookieChanged_def NotifyCookieChange_def sample_threads_members)

subsection \<open>Ownership-transfer collections\<close>

text \<open>
  Claim C9. After a call of \<^verbatim>\<open>Create\<close> the builder's handler map and its interceptor
  list are both empty, whatever they held before and whatever the command line.
\<close>

theorem collections_drained:
  "protocol_handlers (snd (Create cl sti f)) = []
   \<and> request_interceptors (snd (Create cl sti f)) = []"
  by (simp add: Create_def Let_def CreateURLRequestJobFactory_def)

theorem collections_drained_witness:
  "protocol_handlers sample_builder \<noteq> []
   \<and> request_interceptors sample_builder \<noteq> []
   \<and> protocol_handlers (snd (Create no_switches sample_StringToInt sample_builder)) = []
   \<and> request_interceptors (snd (Create no_switches sample_StringToInt sample_builder)) = []"
  using collections_drained [of no_switches sample_StringToInt sample_builder]
  by (simp add: sample_builder_members)

subsection \<open>Authentication schemes\<close>

text \<open>
  Claim C10. For every builder and every command line, the preferences of the
  authentication handler factory that \<^verbatim>\<open>Create\<close> builds list exactly the schemes
  basic, digest, ntlm and negotiate, in that order; the two whitelist switches
  determine the server and delegate whitelists and nothing else.
\<close>

theorem auth_schemes_fixed:
  "auth_schemes (auth_preferences (auth_handler_factory (fst (Create cl sti f))))
     = [''basic'', ''digest'', ''ntlm'', ''negotiate'']
   \<and> server_whitelist (auth_preferences (auth_handler_factory (fst (Create cl sti f))))
     = cl kAuthServerWhitelist
   \<and> delegate_whitelist (auth_preferences (auth_handler_factory (fst (Create cl sti f))))
     = cl kAuthNegotiateDelegateWhitelist"
  by (auto simp: Create_def Let_def HasSwitch_def GetSwitchValueASCII_def split: option.splits)

theorem auth_schemes_fixed_witness:
  "auth_schemes (auth_preferences (auth_handler_factory
       (fst (Create whitelists sample_StringToInt sample_builder))))
     = [''basic'', ''digest'', ''ntlm'', ''negotiate'']
   \<and> server_whitelist (auth_preferences (auth_handler_factory
       (fst (Create whitelists sample_StringToInt sample_builder))))
     = Some ''*example.com''
   \<and> delegate_whitelist (auth_preferences (auth_handler_factory
       (fst (Create whitelists sample_StringToInt sample_builder))))
     = None"
  using auth_schemes_fixed [of whitelists sample_StringToInt sample_builder]
  by (simp add: whitelists_def)

end
